theory Spec2Isabelle
  imports Main
begin

section \<open>The answer controller and its gating layer\<close>

text \<open>
  The development embeds the request handlers of
  \<^verbatim>\<open>internal/controller/answer_controller.go\<close>. A handler is a straight line of calls
  to its collaborators (rank service, captcha service, rate-limit middleware, answer
  service, site-info service) with early returns. A handler is modelled as a function
  from the answers its collaborators give to the list of calls it makes, in order: the
  trace. Every early return of the source is a branch that ends the trace.
\<close>

subsection \<open>Constants of the packages the controller imports\<close>

text \<open>The action names of package \<^verbatim>\<open>permission\<close> that the answer controller passes.\<close>

datatype permission =
    AnswerAdd
  | AnswerEdit
  | AnswerDelete
  | AnswerUnDelete
  | AnswerEditWithoutReview
  | AnswerAccept
  | LinkUrlLimit

text \<open>The action kinds of package \<^verbatim>\<open>entity\<close> that key the captcha records.\<close>

datatype captcha_action = CaptchaActionDelete | CaptchaActionAnswer | CaptchaActionEdit

text \<open>The keys of package \<^verbatim>\<open>reason\<close> the controller uses; a service may report any other.\<close>

datatype reason =
    CaptchaVerificationFailed
  | RankFailToMeetTheCondition
  | AnswerRestrictAnswer
  | OtherReason string

text \<open>
  An error value carries the HTTP status it is answered with and its reason key.
  \<^verbatim>\<open>errors.BadRequest\<close> and \<^verbatim>\<open>errors.Forbidden\<close> build the errors of status 400
  and 403. An error of a service that carries no status of its own is answered with
  500, and is the value of code 500 here.
\<close>

datatype error = Error (err_code: nat) (err_reason: reason)

definition BadRequest :: "reason \<Rightarrow> error" where
  "BadRequest r = Error 400 r"

definition Forbidden :: "reason \<Rightarrow> error" where
  "Forbidden r = Error 403 r"

definition StatusOK :: nat where
  "StatusOK = 200"

subsection \<open>Calls and traces\<close>

text \<open>
  One constructor for each call a handler makes to a collaborator, named after the
  receiver and the method. \<^verbatim>\<open>uid.DeShortID\<close>, \<^verbatim>\<open>translator.Tr\<close>,
  \<^verbatim>\<open>permission.GetAnswerPermission\<close> and the reads of the request's headers compute
  values from their arguments; they call none of the collaborators and leave no call in
  the trace.
\<close>

datatype event =
    handler_BindAndCheck
  | handler_HandleResponse "error option"
  | middleware_GetLoginUserIDFromContext
  | middleware_GetUserIsAdminModerator
  | rateLimit_DuplicateRequestRejection
  | rateLimit_DuplicateRequestClear
  | actionService_ActionRecordVerifyCaptcha captcha_action
  | actionService_ActionRecordAdd captcha_action
  | rankService_CheckOperationObjectOwner
  | rankService_CheckOperationPermissions "permission list"
  | rankService_CheckOperationPermission permission
  | siteInfo_GetSiteWrite
  | answerService_GetCountByUserIDQuestionID
  | answerService_RemoveAnswer
  | answerService_Insert
  | answerService_Update
  | answerService_Get
  | answerService_AdminSetAnswerStatus

text \<open>
  What the collaborators answer during one request. Each of them is asked at most once
  per field in one run of a handler, so one record of answers describes a whole run.
  \<^item> \<open>bind_error\<close>: \<^verbatim>\<open>handler.BindAndCheck\<close> returned true (it has answered the
    request itself);
  \<^item> \<open>reject\<close>: the first result of \<^verbatim>\<open>DuplicateRequestRejection\<close> (on true the
    middleware has answered the request itself);
  \<^item> \<open>isAdmin\<close>: \<^verbatim>\<open>middleware.GetUserIsAdminModerator\<close>;
  \<^item> \<open>captchaPass\<close>: \<^verbatim>\<open>ActionRecordVerifyCaptcha\<close>;
  \<^item> \<open>objectOwner\<close>: \<^verbatim>\<open>CheckOperationObjectOwner\<close>;
  \<^item> \<open>permissions_err\<close>, \<open>permissions_can\<close>: the error of
    \<^verbatim>\<open>CheckOperationPermissions\<close> and, per action name, its verdict;
  \<^item> \<open>permission_single\<close>: the result of \<^verbatim>\<open>CheckOperationPermission\<close>;
  \<^item> \<open>site_write\<close>: \<^verbatim>\<open>GetSiteWrite\<close>, an error or the flag \<^verbatim>\<open>RestrictAnswer\<close>;
  \<^item> \<open>answer_ids\<close>: \<^verbatim>\<open>GetCountByUserIDQuestionID\<close>, an error or \<^verbatim>\<open>len(ids)\<close>;
  \<^item> \<open>remove_err\<close>, \<open>insert_err\<close>, \<open>update_err\<close>, \<open>admin_status_err\<close>: the
    error of the answer service's mutation;
  \<^item> \<open>get_result\<close>: \<^verbatim>\<open>answerService.Get\<close>, an error or the flag \<^verbatim>\<open>has\<close>.
\<close>

record collaborators =
  bind_error :: bool
  reject :: bool
  isAdmin :: bool
  captchaPass :: bool
  objectOwner :: bool
  permissions_err :: "error option"
  permissions_can :: "permission \<Rightarrow> bool"
  permission_single :: "error + bool"
  site_write :: "error + bool"
  answer_ids :: "error + nat"
  remove_err :: "error option"
  insert_err :: "error option"
  update_err :: "error option"
  admin_status_err :: "error option"
  get_result :: "error + bool"

text \<open>
  \<^verbatim>\<open>rankService.CheckOperationPermissions(ctx, userID, actions)\<close> answers an error or
  one verdict per action asked, in the order asked (the batch contract of the
  permission evaluator), so the handlers' reads \<^verbatim>\<open>canList[0]\<close>, \<^verbatim>\<open>canList[1]\<close> and
  \<^verbatim>\<open>canList[2]\<close> are in range.
\<close>

definition CheckOperationPermissions ::
  "collaborators \<Rightarrow> permission list \<Rightarrow> error + bool list" where
  "CheckOperationPermissions c actions =
     (case permissions_err c of
        Some err \<Rightarrow> Inl err
      | None \<Rightarrow> Inr (map (permissions_can c) actions))"

text \<open>
  \<^verbatim>\<open>handler.HandleResponse(ctx, err, data)\<close> answers with status 200 when \<open>err\<close> is
  nil and with the error's status otherwise. \<^verbatim>\<open>ctx.Writer.Status()\<close> is 200 until a
  response is written. \<open>Status\<close> reads the writer's status after the calls of a trace.
  \<^verbatim>\<open>BindAndCheck\<close> and \<^verbatim>\<open>DuplicateRequestRejection\<close> answer the request
  themselves when they return true; a trace does not show that response, so \<open>Status\<close>
  speaks of the runs in which both returned false.
\<close>

definition response_status :: "error option \<Rightarrow> nat" where
  "response_status r = (case r of None \<Rightarrow> StatusOK | Some err \<Rightarrow> err_code err)"

fun Status_from :: "nat \<Rightarrow> event list \<Rightarrow> nat" where
  "Status_from s [] = s"
| "Status_from s (handler_HandleResponse r # es) = Status_from (response_status r) es"
| "Status_from s (e # es) = Status_from s es"

definition Status :: "event list \<Rightarrow> nat" where
  "Status es = Status_from StatusOK es"

subsection \<open>RemoveAnswer (lines 79 to 118)\<close>

definition RemoveAnswer_mutation :: "collaborators \<Rightarrow> bool \<Rightarrow> event list" where
  "RemoveAnswer_mutation c isAdmin' =
     answerService_RemoveAnswer #
     (if \<not> isAdmin' then [actionService_ActionRecordAdd CaptchaActionDelete] else []) @
     [handler_HandleResponse (remove_err c)]"

definition RemoveAnswer_permission :: "collaborators \<Rightarrow> bool \<Rightarrow> event list" where
  "RemoveAnswer_permission c isAdmin' =
     rankService_CheckOperationObjectOwner #
     rankService_CheckOperationPermissions [AnswerDelete] #
     (case CheckOperationPermissions c [AnswerDelete] of
        Inl err \<Rightarrow> [handler_HandleResponse (Some err)]
      | Inr canList \<Rightarrow>
          (let CanDelete = (canList ! 0 \<or> objectOwner c) in
           if \<not> CanDelete
           then [handler_HandleResponse (Some (Forbidden RankFailToMeetTheCondition))]
           else RemoveAnswer_mutation c isAdmin'))"

definition RemoveAnswer :: "collaborators \<Rightarrow> event list" where
  "RemoveAnswer c =
     handler_BindAndCheck #
     (if bind_error c then []
      else
        middleware_GetLoginUserIDFromContext #
        middleware_GetUserIsAdminModerator #
        (if \<not> isAdmin c
         then
           actionService_ActionRecordVerifyCaptcha CaptchaActionDelete #
           (if \<not> captchaPass c
            then [handler_HandleResponse (Some (BadRequest CaptchaVerificationFailed))]
            else RemoveAnswer_permission c (isAdmin c))
         else RemoveAnswer_permission c (isAdmin c)))"

subsection \<open>AddAnswer (lines 193 to 293)\<close>

definition AddAnswer_get :: "collaborators \<Rightarrow> event list" where
  "AddAnswer_get c =
     answerService_Get #
     (case get_result c of
        Inl err \<Rightarrow> [handler_HandleResponse (Some err)]
      | Inr has \<Rightarrow>
          if \<not> has then [handler_HandleResponse None]
          else [rankService_CheckOperationObjectOwner, handler_HandleResponse None])"

definition AddAnswer_insert :: "collaborators \<Rightarrow> bool \<Rightarrow> bool \<Rightarrow> event list" where
  "AddAnswer_insert c isAdmin' linkUrlLimitUser =
     answerService_Insert #
     (case insert_err c of
        Some err \<Rightarrow> [handler_HandleResponse (Some err)]
      | None \<Rightarrow>
          (if \<not> isAdmin' \<or> \<not> linkUrlLimitUser
           then [actionService_ActionRecordAdd CaptchaActionAnswer] else []) @
          AddAnswer_get c)"

definition AddAnswer_restrict :: "collaborators \<Rightarrow> bool \<Rightarrow> bool \<Rightarrow> event list" where
  "AddAnswer_restrict c isAdmin' linkUrlLimitUser =
     siteInfo_GetSiteWrite #
     (case site_write c of
        Inl err \<Rightarrow> [handler_HandleResponse (Some err)]
      | Inr RestrictAnswer \<Rightarrow>
          if RestrictAnswer
          then
            answerService_GetCountByUserIDQuestionID #
            (case answer_ids c of
               Inl err \<Rightarrow> [handler_HandleResponse (Some err)]
             | Inr len_ids \<Rightarrow>
                 if len_ids \<ge> 1
                 then [handler_HandleResponse (Some (Forbidden AnswerRestrictAnswer))]
                 else AddAnswer_insert c isAdmin' linkUrlLimitUser)
          else AddAnswer_insert c isAdmin' linkUrlLimitUser)"

definition AddAnswer_permission :: "collaborators \<Rightarrow> bool \<Rightarrow> bool \<Rightarrow> event list" where
  "AddAnswer_permission c isAdmin' linkUrlLimitUser =
     rankService_CheckOperationPermission AnswerAdd #
     (case permission_single c of
        Inl err \<Rightarrow> [handler_HandleResponse (Some err)]
      | Inr can \<Rightarrow>
          if \<not> can
          then [handler_HandleResponse (Some (Forbidden RankFailToMeetTheCondition))]
          else AddAnswer_restrict c isAdmin' linkUrlLimitUser)"

definition AddAnswer_captcha :: "collaborators \<Rightarrow> bool list \<Rightarrow> event list" where
  "AddAnswer_captcha c canList =
     (let linkUrlLimitUser = canList ! 2 in
      middleware_GetUserIsAdminModerator #
      (if \<not> isAdmin c \<or> \<not> linkUrlLimitUser
       then
         actionService_ActionRecordVerifyCaptcha CaptchaActionAnswer #
         (if \<not> captchaPass c
          then [handler_HandleResponse (Some (BadRequest CaptchaVerificationFailed))]
          else AddAnswer_permission c (isAdmin c) linkUrlLimitUser)
       else AddAnswer_permission c (isAdmin c) linkUrlLimitUser))"

text \<open>The handler's body after the deferred function is registered (lines 208 to 292).\<close>

definition AddAnswer_body :: "collaborators \<Rightarrow> event list" where
  "AddAnswer_body c =
     middleware_GetLoginUserIDFromContext #
     rankService_CheckOperationPermissions [AnswerEdit, AnswerDelete, LinkUrlLimit] #
     (case CheckOperationPermissions c [AnswerEdit, AnswerDelete, LinkUrlLimit] of
        Inl err \<Rightarrow> [handler_HandleResponse (Some err)]
      | Inr canList \<Rightarrow> AddAnswer_captcha c canList)"

text \<open>
  The deferred function (lines 202 to 207) runs when the body returns, and reads the
  writer's status then.
\<close>

definition AddAnswer_deferred :: "event list \<Rightarrow> event list" where
  "AddAnswer_deferred body =
     (if Status body \<noteq> StatusOK then [rateLimit_DuplicateRequestClear] else [])"

definition AddAnswer :: "collaborators \<Rightarrow> event list" where
  "AddAnswer c =
     handler_BindAndCheck #
     (if bind_error c then []
      else
        rateLimit_DuplicateRequestRejection #
        (if reject c then []
         else (let body = AddAnswer_body c in body @ AddAnswer_deferred body)))"

subsection \<open>UpdateAnswer (lines 305 to 358)\<close>

definition UpdateAnswer_mutation :: "collaborators \<Rightarrow> bool \<Rightarrow> bool \<Rightarrow> event list" where
  "UpdateAnswer_mutation c isAdmin' linkUrlLimitUser =
     answerService_Update #
     (case update_err c of
        Some err \<Rightarrow> [handler_HandleResponse (Some err)]
      | None \<Rightarrow>
          (if \<not> isAdmin' \<or> \<not> linkUrlLimitUser
           then [actionService_ActionRecordAdd CaptchaActionEdit] else []) @
          answerService_Get #
          (case get_result c of
             Inl err \<Rightarrow> [handler_HandleResponse (Some err)]
           | Inr has \<Rightarrow> [handler_HandleResponse None]))"

definition UpdateAnswer_permission :: "collaborators \<Rightarrow> bool list \<Rightarrow> bool \<Rightarrow> event list" where
  "UpdateAnswer_permission c canList isAdmin' =
     rankService_CheckOperationObjectOwner #
     (let CanEdit = (canList ! 0 \<or> objectOwner c) in
      if \<not> CanEdit
      then [handler_HandleResponse (Some (Forbidden RankFailToMeetTheCondition))]
      else UpdateAnswer_mutation c isAdmin' (canList ! 2))"

definition UpdateAnswer :: "collaborators \<Rightarrow> event list" where
  "UpdateAnswer c =
     handler_BindAndCheck #
     (if bind_error c then []
      else
        middleware_GetLoginUserIDFromContext #
        rankService_CheckOperationPermissions
          [AnswerEdit, AnswerEditWithoutReview, LinkUrlLimit] #
        (case CheckOperationPermissions c
                [AnswerEdit, AnswerEditWithoutReview, LinkUrlLimit] of
           Inl err \<Rightarrow> [handler_HandleResponse (Some err)]
         | Inr canList \<Rightarrow>
             (let linkUrlLimitUser = canList ! 2 in
              middleware_GetUserIsAdminModerator #
              (if \<not> isAdmin c \<or> \<not> linkUrlLimitUser
               then
                 actionService_ActionRecordVerifyCaptcha CaptchaActionEdit #
                 (if \<not> captchaPass c
                  then [handler_HandleResponse (Some (BadRequest CaptchaVerificationFailed))]
                  else UpdateAnswer_permission c canList (isAdmin c))
               else UpdateAnswer_permission c canList (isAdmin c)))))"

subsection \<open>AdminUpdateAnswerStatus (lines 448 to 458)\<close>

definition AdminUpdateAnswerStatus :: "collaborators \<Rightarrow> event list" where
  "AdminUpdateAnswerStatus c =
     handler_BindAndCheck #
     (if bind_error c then []
      else
        [middleware_GetLoginUserIDFromContext,
         answerService_AdminSetAnswerStatus,
         handler_HandleResponse (admin_status_err c)])"

subsection \<open>The steps of the gating layer\<close>

text \<open>
  The steps of the gating sequence: admission by the duplicate suppressor, permission
  evaluation, challenge verification, the domain mutation, the challenge gate's attempt
  record, and the duplicate suppressor's release. \<open>step_of\<close> names the step a call
  belongs to. Reads of the request context, the ownership lookup, the reads of the site
  configuration and of stored answers, and the response are no step of the sequence.
\<close>

datatype step = Admit | Authorize | Challenge | Mutate | UpdateChallenge | Release

fun step_of :: "event \<Rightarrow> step option" where
  "step_of rateLimit_DuplicateRequestRejection = Some Admit"
| "step_of (rankService_CheckOperationPermissions actions) = Some Authorize"
| "step_of (rankService_CheckOperationPermission action) = Some Authorize"
| "step_of (actionService_ActionRecordVerifyCaptcha k) = Some Challenge"
| "step_of answerService_RemoveAnswer = Some Mutate"
| "step_of answerService_Insert = Some Mutate"
| "step_of answerService_Update = Some Mutate"
| "step_of answerService_AdminSetAnswerStatus = Some Mutate"
| "step_of (actionService_ActionRecordAdd k) = Some UpdateChallenge"
| "step_of rateLimit_DuplicateRequestClear = Some Release"
| "step_of e = None"

fun steps :: "event list \<Rightarrow> step list" where
  "steps [] = []"
| "steps (e # es) = (case step_of e of None \<Rightarrow> steps es | Some s \<Rightarrow> s # steps es)"

text \<open>
  The position of each step in the order the specification prescribes: suppress,
  authorize, challenge, mutate, update-challenge, release-on-failure.
\<close>

fun spec_position :: "step \<Rightarrow> nat" where
  "spec_position Admit = 0"
| "spec_position Authorize = 1"
| "spec_position Challenge = 2"
| "spec_position Mutate = 3"
| "spec_position UpdateChallenge = 4"
| "spec_position Release = 5"

text \<open>
  The order the handlers keep: permission evaluation and challenge verification share
  one position, since the handlers interleave them.
\<close>

fun handler_position :: "step \<Rightarrow> nat" where
  "handler_position Admit = 0"
| "handler_position Authorize = 1"
| "handler_position Challenge = 1"
| "handler_position Mutate = 2"
| "handler_position UpdateChallenge = 3"
| "handler_position Release = 4"

text \<open>A trace is in order when no step of it comes before a step of an earlier position.\<close>

definition in_order :: "(step \<Rightarrow> nat) \<Rightarrow> event list \<Rightarrow> bool" where
  "in_order pos es = sorted (map pos (steps es))"

text \<open>The responses a trace writes.\<close>

fun is_HandleResponse :: "event \<Rightarrow> bool" where
  "is_HandleResponse (handler_HandleResponse r) = True"
| "is_HandleResponse e = False"

definition responses :: "event list \<Rightarrow> event list" where
  "responses es = filter is_HandleResponse es"

subsection \<open>Sample requests\<close>

text \<open>
  A request of a member who is neither admin nor moderator: the body binds, the request
  is no duplicate, the captcha passes, the rank service permits every action, the site
  does not restrict answers, and every service call succeeds.
\<close>

definition member_request :: collaborators where
  "member_request =
     \<lparr>bind_error = False, reject = False, isAdmin = False, captchaPass = True,
      objectOwner = False, permissions_err = None, permissions_can = (\<lambda>action. True),
      permission_single = Inr True, site_write = Inr False, answer_ids = Inr 0,
      remove_err = None, insert_err = None, update_err = None, admin_status_err = None,
      get_result = Inr True\<rparr>"

definition database_error :: error where
  "database_error = Error 500 (OtherReason ''database error'')"


text \<open>A member whom the rank service permits nothing.\<close>

definition denied_request :: collaborators where
  "denied_request =
     member_request\<lparr>permissions_can := (\<lambda>action. False), permission_single := Inr False\<rparr>"

text \<open>An admin with the privilege LinkUrlLimit, who sends no valid captcha.\<close>

definition admin_request :: collaborators where
  "admin_request = member_request\<lparr>isAdmin := True, captchaPass := False\<rparr>"

text \<open>A member who has one answer on the question already, on a site that restricts answers.\<close>

definition restricted_request :: collaborators where
  "restricted_request = member_request\<lparr>site_write := Inr True, answer_ids := Inr 1\<rparr>"

subsection \<open>The permission evaluator\<close>

text \<open>
  Modelled from the spec: the permission evaluator (the rank service of
  \<^verbatim>\<open>internal/service/rank\<close>, which is not among the sources), after section 4.1 of the
  specification. A rule gives an action its rank threshold for other users' objects and
  an optional threshold for the owner. \<open>Evaluate\<close> permits an admin; otherwise it looks
  the action's rule up, denies an action that has none, permits an owner whose rank is
  at or above a configured owner threshold, and otherwise permits exactly the ranks at
  or above the others threshold.
\<close>

record rule =
  others_threshold :: int
  owner_threshold :: "int option"

type_synonym rules = "permission \<Rightarrow> rule option"

definition Evaluate :: "rules \<Rightarrow> int \<Rightarrow> permission \<Rightarrow> bool \<Rightarrow> bool \<Rightarrow> bool" where
  "Evaluate rs userRank action isOwner isAdmin' =
     (if isAdmin' then True
      else
        (case rs action of
           None \<Rightarrow> False
         | Some r \<Rightarrow>
             if isOwner \<and> (case owner_threshold r of None \<Rightarrow> False | Some t \<Rightarrow> userRank \<ge> t)
             then True
             else if userRank \<ge> others_threshold r then True
             else False))"

text \<open>
  Modelled from the spec: the batch form \<open>EvaluateMany\<close> of section 4.1, which evaluates
  the actions one after the other and answers in the order asked.
\<close>

primrec EvaluateMany :: "rules \<Rightarrow> int \<Rightarrow> permission list \<Rightarrow> bool \<Rightarrow> bool \<Rightarrow> bool list" where
  "EvaluateMany rs userRank [] isOwner isAdmin' = []"
| "EvaluateMany rs userRank (action # actions) isOwner isAdmin' =
     Evaluate rs userRank action isOwner isAdmin' #
     EvaluateMany rs userRank actions isOwner isAdmin'"

text \<open>
  Modelled from the spec: what \<^verbatim>\<open>CheckOperationPermissions\<close> answers a handler when
  the rank service is the evaluator above. The handlers hand it a user and action names
  but no object, so it evaluates without an ownership fact; the ownership fact reaches
  the handler's decision through \<^verbatim>\<open>CheckOperationObjectOwner\<close> alone.
\<close>

definition rank_service :: "rules \<Rightarrow> int \<Rightarrow> collaborators \<Rightarrow> collaborators" where
  "rank_service rs userRank c =
     c\<lparr>permissions_err := None,
       permissions_can := (\<lambda>action. Evaluate rs userRank action False (isAdmin c))\<rparr>"

text \<open>
  Rules in the numbers of the specification's scenarios: deleting another user's answer
  takes rank 100, editing one rank 200, and the owner's threshold is 30 for both.
\<close>

definition example_rules :: rules where
  "example_rules =
     (\<lambda>action. None)
       (AnswerDelete := Some \<lparr>others_threshold = 100, owner_threshold = Some 30\<rparr>,
        AnswerEdit := Some \<lparr>others_threshold = 200, owner_threshold = Some 30\<rparr>)"

text \<open>The author of an answer, of rank 10, who is no admin.\<close>

definition owner_of_low_rank :: collaborators where
  "owner_of_low_rank = rank_service example_rules 10 (member_request\<lparr>objectOwner := True\<rparr>)"

section \<open>Properties of the handlers\<close>

lemmas AddAnswer_stage_defs =
  AddAnswer_body_def AddAnswer_captcha_def AddAnswer_permission_def
  AddAnswer_restrict_def AddAnswer_insert_def AddAnswer_get_def

lemmas AddAnswer_defs = AddAnswer_def AddAnswer_deferred_def AddAnswer_stage_defs

lemmas RemoveAnswer_defs =
  RemoveAnswer_def RemoveAnswer_permission_def RemoveAnswer_mutation_def

lemmas UpdateAnswer_defs =
  UpdateAnswer_def UpdateAnswer_permission_def UpdateAnswer_mutation_def

lemmas status_defs = Status_def response_status_def StatusOK_def BadRequest_def Forbidden_def

lemma steps_append: "steps (xs @ ys) = steps xs @ steps ys"
  by (induction xs) (auto split: option.splits)

lemma Status_from_append: "Status_from s (xs @ ys) = Status_from (Status_from s xs) ys"
  by (induction s xs rule: Status_from.induct) simp_all

lemma responses_Cons:
  "responses (e # es) = (if is_HandleResponse e then e # responses es else responses es)"
  by (simp add: responses_def)

lemma responses_Nil: "responses [] = []"
  by (simp add: responses_def)

lemma responses_append: "responses (xs @ ys) = responses xs @ responses ys"
  by (simp add: responses_def)

lemmas responses_simps = responses_Cons responses_Nil responses_append

subsection \<open>The order of the gating steps\<close>

lemma AddAnswer_body_order:
  "sorted (map handler_position (steps (AddAnswer_body c))) \<and>
   (\<forall>s \<in> set (steps (AddAnswer_body c)). 1 \<le> handler_position s \<and> handler_position s \<le> 3)"
  by (simp add: AddAnswer_stage_defs CheckOperationPermissions_def Let_def
      split: option.split sum.split)

lemma AddAnswer_order: "in_order handler_position (AddAnswer c)"
  using AddAnswer_body_order [of c]
  by (simp add: in_order_def AddAnswer_def AddAnswer_deferred_def Let_def steps_append
      sorted_append) fastforce

lemma RemoveAnswer_order: "in_order handler_position (RemoveAnswer c)"
  by (simp add: in_order_def RemoveAnswer_defs CheckOperationPermissions_def Let_def
      split: option.split)

lemma UpdateAnswer_order: "in_order handler_position (UpdateAnswer c)"
  by (simp add: in_order_def UpdateAnswer_defs CheckOperationPermissions_def Let_def
      split: option.split sum.split)

lemma RemoveAnswer_no_suppressor:
  "Admit \<notin> set (steps (RemoveAnswer c)) \<and> Release \<notin> set (steps (RemoveAnswer c))"
  by (simp add: RemoveAnswer_defs CheckOperationPermissions_def Let_def split: option.split)

lemma UpdateAnswer_no_suppressor:
  "Admit \<notin> set (steps (UpdateAnswer c)) \<and> Release \<notin> set (steps (UpdateAnswer c))"
  by (simp add: UpdateAnswer_defs CheckOperationPermissions_def Let_def
      split: option.split sum.split)

text \<open>
  Claim C1, as the specification states it: every mutating handler invokes the gating
  components in the order suppress, authorize, challenge, mutate, update-challenge,
  release. RemoveAnswer does not: for a member who is no admin it verifies the captcha
  (line 88) before it asks the rank service (line 100).
\<close>

theorem RemoveAnswer_challenge_before_permission:
  "\<not> in_order spec_position (RemoveAnswer member_request)"
  by (simp add: in_order_def RemoveAnswer_defs CheckOperationPermissions_def
      member_request_def)

text \<open>
  Claim C1, amended: in RemoveAnswer, AddAnswer and UpdateAnswer alike, admission by the
  duplicate suppressor comes before every other step, every permission evaluation and
  every challenge verification come before the domain mutation, the mutation comes
  before the attempt record, and the release comes last; permission evaluation and
  challenge verification come in no fixed order between themselves. RemoveAnswer and
  UpdateAnswer never call the duplicate suppressor.
\<close>

theorem handlers_gate_before_mutation:
  "in_order handler_position (RemoveAnswer c) \<and>
   in_order handler_position (AddAnswer c) \<and>
   in_order handler_position (UpdateAnswer c) \<and>
   Admit \<notin> set (steps (RemoveAnswer c)) \<and> Release \<notin> set (steps (RemoveAnswer c)) \<and>
   Admit \<notin> set (steps (UpdateAnswer c)) \<and> Release \<notin> set (steps (UpdateAnswer c))"
  using RemoveAnswer_order AddAnswer_order UpdateAnswer_order
    RemoveAnswer_no_suppressor UpdateAnswer_no_suppressor by simp

theorem handlers_gate_before_mutation_witness:
  "steps (RemoveAnswer member_request) = [Challenge, Authorize, Mutate, UpdateChallenge] \<and>
   steps (UpdateAnswer member_request) = [Authorize, Challenge, Mutate, UpdateChallenge] \<and>
   steps (AddAnswer member_request) =
     [Admit, Authorize, Challenge, Authorize, Mutate, UpdateChallenge] \<and>
   steps (AddAnswer denied_request) = [Admit, Authorize, Challenge, Authorize, Release] \<and>
   in_order handler_position (RemoveAnswer member_request) \<and>
   in_order handler_position (AddAnswer member_request) \<and>
   in_order handler_position (UpdateAnswer member_request)"
  using handlers_gate_before_mutation [of member_request]
  by (simp add: RemoveAnswer_defs UpdateAnswer_defs AddAnswer_defs
      CheckOperationPermissions_def status_defs member_request_def denied_request_def)

subsection \<open>Duplicate suppression in AddAnswer\<close>

text \<open>
  Claim C2: in AddAnswer the duplicate suppressor is asked for every request whose body
  binds; the admin flag is not read before it is asked; and when it rejects, the handler
  returns at once whatever the admin flag is.
\<close>

theorem AddAnswer_admin_never_bypasses_duplicate_check:
  "\<not> bind_error c \<Longrightarrow>
   rateLimit_DuplicateRequestRejection \<in> set (AddAnswer c) \<and>
   middleware_GetUserIsAdminModerator \<notin>
     set (takeWhile (\<lambda>e. e \<noteq> rateLimit_DuplicateRequestRejection) (AddAnswer c)) \<and>
   (reject c \<longrightarrow>
      AddAnswer (c\<lparr>isAdmin := a\<rparr>) =
        [handler_BindAndCheck, rateLimit_DuplicateRequestRejection])"
  by (simp add: AddAnswer_def)

theorem AddAnswer_admin_never_bypasses_duplicate_check_witness:
  "\<not> bind_error (member_request\<lparr>reject := True\<rparr>) \<and>
   reject (member_request\<lparr>reject := True\<rparr>) \<and>
   isAdmin (member_request\<lparr>reject := True, isAdmin := True\<rparr>) \<and>
   AddAnswer (member_request\<lparr>reject := True, isAdmin := True\<rparr>) =
     [handler_BindAndCheck, rateLimit_DuplicateRequestRejection]"
  using AddAnswer_admin_never_bypasses_duplicate_check
    [of "member_request\<lparr>reject := True\<rparr>" True]
  by (simp add: member_request_def)

lemma AddAnswer_get_one_response: "length (responses (AddAnswer_get c)) = 1"
  by (simp add: AddAnswer_get_def responses_simps split: sum.split)

lemma AddAnswer_insert_one_response: "length (responses (AddAnswer_insert c a l)) = 1"
  by (simp add: AddAnswer_insert_def responses_simps AddAnswer_get_one_response
      split: option.split)

lemma AddAnswer_restrict_one_response: "length (responses (AddAnswer_restrict c a l)) = 1"
  by (simp add: AddAnswer_restrict_def responses_simps AddAnswer_insert_one_response
      split: sum.split)

lemma AddAnswer_permission_one_response:
  "length (responses (AddAnswer_permission c a l)) = 1"
  by (simp add: AddAnswer_permission_def responses_simps AddAnswer_restrict_one_response
      split: sum.split)

lemma AddAnswer_captcha_one_response: "length (responses (AddAnswer_captcha c canList)) = 1"
  by (simp add: AddAnswer_captcha_def responses_simps AddAnswer_permission_one_response
      Let_def)

lemma AddAnswer_body_one_response: "length (responses (AddAnswer_body c)) = 1"
  by (simp add: AddAnswer_body_def responses_simps AddAnswer_captcha_one_response
      split: sum.split)

lemma AddAnswer_body_no_clear: "rateLimit_DuplicateRequestClear \<notin> set (AddAnswer_body c)"
  by (simp add: AddAnswer_stage_defs CheckOperationPermissions_def Let_def
      split: option.split sum.split)

text \<open>
  Claim C3: for every AddAnswer request the duplicate suppressor admits, the handler
  writes exactly one response, and it calls DuplicateRequestClear (once) if and only if
  the status of that response is not 200.
\<close>

theorem AddAnswer_release_iff_not_ok:
  "\<not> bind_error c \<Longrightarrow> \<not> reject c \<Longrightarrow>
   (rateLimit_DuplicateRequestClear \<in> set (AddAnswer c) \<longleftrightarrow>
      Status (AddAnswer c) \<noteq> StatusOK) \<and>
   count_list (AddAnswer c) rateLimit_DuplicateRequestClear \<le> 1 \<and>
   length (responses (AddAnswer c)) = 1"
  using AddAnswer_body_no_clear [of c] AddAnswer_body_one_response [of c]
  by (simp add: AddAnswer_def AddAnswer_deferred_def Status_def Status_from_append
      responses_simps Let_def count_list_0_iff)

theorem AddAnswer_release_iff_not_ok_witness:
  "\<not> bind_error (member_request\<lparr>insert_err := Some database_error\<rparr>) \<and>
   \<not> reject (member_request\<lparr>insert_err := Some database_error\<rparr>) \<and>
   Status (AddAnswer (member_request\<lparr>insert_err := Some database_error\<rparr>)) = 500 \<and>
   rateLimit_DuplicateRequestClear \<in>
     set (AddAnswer (member_request\<lparr>insert_err := Some database_error\<rparr>)) \<and>
   \<not> bind_error member_request \<and> \<not> reject member_request \<and>
   Status (AddAnswer member_request) = 200 \<and>
   rateLimit_DuplicateRequestClear \<notin> set (AddAnswer member_request)"
  using AddAnswer_release_iff_not_ok [of "member_request\<lparr>insert_err := Some database_error\<rparr>"]
    AddAnswer_release_iff_not_ok [of member_request]
  by (simp add: member_request_def database_error_def AddAnswer_defs
      CheckOperationPermissions_def status_defs)

subsection \<open>Denial by the permission check\<close>

lemma AddAnswer_permission_denied:
  "permission_single c = Inr False \<Longrightarrow>
   AddAnswer_permission c a l =
     [rankService_CheckOperationPermission AnswerAdd,
      handler_HandleResponse (Some (Forbidden RankFailToMeetTheCondition))]"
  by (simp add: AddAnswer_permission_def)

lemma RemoveAnswer_denied:
  assumes "rankService_CheckOperationPermissions [AnswerDelete] \<in> set (RemoveAnswer c)"
    and "permissions_err c = None"
    and "\<not> permissions_can c AnswerDelete" and "\<not> objectOwner c"
  shows "responses (RemoveAnswer c) =
           [handler_HandleResponse (Some (Forbidden RankFailToMeetTheCondition))] \<and>
         Status (RemoveAnswer c) = 403 \<and>
         answerService_RemoveAnswer \<notin> set (RemoveAnswer c) \<and>
         actionService_ActionRecordAdd k \<notin> set (RemoveAnswer c)"
  using assms
  by (simp add: RemoveAnswer_defs CheckOperationPermissions_def responses_simps status_defs
      split: if_split_asm)

lemma AddAnswer_denied:
  assumes "rankService_CheckOperationPermission AnswerAdd \<in> set (AddAnswer c)"
    and "permission_single c = Inr False"
  shows "responses (AddAnswer c) =
           [handler_HandleResponse (Some (Forbidden RankFailToMeetTheCondition))] \<and>
         Status (AddAnswer c) = 403 \<and>
         answerService_Insert \<notin> set (AddAnswer c) \<and>
         actionService_ActionRecordAdd k \<notin> set (AddAnswer c)"
  using assms
  by (simp add: AddAnswer_def AddAnswer_deferred_def AddAnswer_body_def
      AddAnswer_captcha_def CheckOperationPermissions_def AddAnswer_permission_denied
      responses_simps status_defs Let_def split: if_split_asm option.split_asm)

lemma UpdateAnswer_denied:
  assumes "rankService_CheckOperationObjectOwner \<in> set (UpdateAnswer c)"
    and "\<not> permissions_can c AnswerEdit" and "\<not> objectOwner c"
  shows "responses (UpdateAnswer c) =
           [handler_HandleResponse (Some (Forbidden RankFailToMeetTheCondition))] \<and>
         Status (UpdateAnswer c) = 403 \<and>
         answerService_Update \<notin> set (UpdateAnswer c) \<and>
         actionService_ActionRecordAdd k \<notin> set (UpdateAnswer c)"
  using assms
  by (simp add: UpdateAnswer_defs CheckOperationPermissions_def responses_simps status_defs
      Let_def split: if_split_asm option.split_asm)

text \<open>
  Claim C4: when the permission check of a handler denies, the handler's only response
  is Forbidden (status 403, reason RankFailToMeetTheCondition), the domain mutation is
  not called and ActionRecordAdd is not called. The permission check denies when the
  handler comes to it and its verdict is to deny: in RemoveAnswer the rank service is
  asked about AnswerDelete (line 100) and neither it nor the ownership lookup permits
  (line 107); in AddAnswer the rank service is asked about AnswerAdd (line 235) and
  answers false; in UpdateAnswer the ownership is looked up (line 336) and neither the
  rank service's verdict on AnswerEdit nor the ownership permits (line 337).
\<close>

theorem permission_denied_no_side_effects:
  "(rankService_CheckOperationPermissions [AnswerDelete] \<in> set (RemoveAnswer c) \<and>
    permissions_err c = None \<and> \<not> permissions_can c AnswerDelete \<and> \<not> objectOwner c \<longrightarrow>
      responses (RemoveAnswer c) =
        [handler_HandleResponse (Some (Forbidden RankFailToMeetTheCondition))] \<and>
      Status (RemoveAnswer c) = 403 \<and>
      answerService_RemoveAnswer \<notin> set (RemoveAnswer c) \<and>
      actionService_ActionRecordAdd k \<notin> set (RemoveAnswer c)) \<and>
   (rankService_CheckOperationPermission AnswerAdd \<in> set (AddAnswer c) \<and>
    permission_single c = Inr False \<longrightarrow>
      responses (AddAnswer c) =
        [handler_HandleResponse (Some (Forbidden RankFailToMeetTheCondition))] \<and>
      Status (AddAnswer c) = 403 \<and>
      answerService_Insert \<notin> set (AddAnswer c) \<and>
      actionService_ActionRecordAdd k \<notin> set (AddAnswer c)) \<and>
   (rankService_CheckOperationObjectOwner \<in> set (UpdateAnswer c) \<and>
    \<not> permissions_can c AnswerEdit \<and> \<not> objectOwner c \<longrightarrow>
      responses (UpdateAnswer c) =
        [handler_HandleResponse (Some (Forbidden RankFailToMeetTheCondition))] \<and>
      Status (UpdateAnswer c) = 403 \<and>
      answerService_Update \<notin> set (UpdateAnswer c) \<and>
      actionService_ActionRecordAdd k \<notin> set (UpdateAnswer c))"
  using RemoveAnswer_denied [of c k] AddAnswer_denied [of c k] UpdateAnswer_denied [of c k]
  by blast

theorem permission_denied_no_side_effects_witness:
  "rankService_CheckOperationPermissions [AnswerDelete] \<in> set (RemoveAnswer denied_request) \<and>
   permissions_err denied_request = None \<and>
   \<not> permissions_can denied_request AnswerDelete \<and> \<not> objectOwner denied_request \<and>
   rankService_CheckOperationPermission AnswerAdd \<in> set (AddAnswer denied_request) \<and>
   permission_single denied_request = Inr False \<and>
   rankService_CheckOperationObjectOwner \<in> set (UpdateAnswer denied_request) \<and>
   \<not> permissions_can denied_request AnswerEdit \<and>
   Status (RemoveAnswer denied_request) = 403 \<and>
   Status (AddAnswer denied_request) = 403 \<and>
   Status (UpdateAnswer denied_request) = 403 \<and>
   answerService_RemoveAnswer \<notin> set (RemoveAnswer denied_request) \<and>
   answerService_Insert \<notin> set (AddAnswer denied_request) \<and>
   answerService_Update \<notin> set (UpdateAnswer denied_request)"
  using permission_denied_no_side_effects [of denied_request CaptchaActionDelete]
  by (simp add: denied_request_def member_request_def RemoveAnswer_defs UpdateAnswer_defs
      AddAnswer_defs CheckOperationPermissions_def status_defs)

subsection \<open>The attempt record of the challenge gate\<close>

text \<open>
  Claim C5: a request that is not exempt and passes the permission check and the
  challenge verification has its attempt recorded exactly once, whether the domain
  mutation succeeds or fails. The code at a failing mutation: a member's AddAnswer whose
  Insert fails returns at line 269 and a member's UpdateAnswer whose Update fails returns
  at line 347, both before ActionRecordAdd is reached, so no attempt is recorded;
  RemoveAnswer, whose mutation fails in the same way, records the attempt once (line 115).
\<close>

theorem failed_mutation_skips_attempt_record:
  "\<not> isAdmin member_request \<and>
   answerService_Insert \<in>
     set (AddAnswer (member_request\<lparr>insert_err := Some database_error\<rparr>)) \<and>
   count_list (AddAnswer (member_request\<lparr>insert_err := Some database_error\<rparr>))
     (actionService_ActionRecordAdd CaptchaActionAnswer) = 0 \<and>
   answerService_Update \<in>
     set (UpdateAnswer (member_request\<lparr>update_err := Some database_error\<rparr>)) \<and>
   count_list (UpdateAnswer (member_request\<lparr>update_err := Some database_error\<rparr>))
     (actionService_ActionRecordAdd CaptchaActionEdit) = 0 \<and>
   answerService_RemoveAnswer \<in>
     set (RemoveAnswer (member_request\<lparr>remove_err := Some database_error\<rparr>)) \<and>
   count_list (RemoveAnswer (member_request\<lparr>remove_err := Some database_error\<rparr>))
     (actionService_ActionRecordAdd CaptchaActionDelete) = 1"
  by (simp add: member_request_def database_error_def RemoveAnswer_defs UpdateAnswer_defs
      AddAnswer_defs CheckOperationPermissions_def status_defs)

theorem failed_mutation_skips_attempt_record_witness:
  "actionService_ActionRecordAdd CaptchaActionAnswer \<notin>
     set (AddAnswer (member_request\<lparr>insert_err := Some database_error\<rparr>)) \<and>
   actionService_ActionRecordAdd CaptchaActionEdit \<notin>
     set (UpdateAnswer (member_request\<lparr>update_err := Some database_error\<rparr>))"
  using failed_mutation_skips_attempt_record
  by (simp add: count_list_0_iff)

text \<open>
  What the handlers do about the attempt record. RemoveAnswer records the attempt of a
  member once whenever it calls the mutation, whatever the mutation returns.
\<close>

theorem RemoveAnswer_records_every_attempt:
  assumes "\<not> bind_error c" and "\<not> isAdmin c" and "captchaPass c"
    and "permissions_err c = None" and "permissions_can c AnswerDelete \<or> objectOwner c"
  shows "answerService_RemoveAnswer \<in> set (RemoveAnswer c) \<and>
         count_list (RemoveAnswer c) (actionService_ActionRecordAdd CaptchaActionDelete) = 1"
  using assms by (auto simp add: RemoveAnswer_defs CheckOperationPermissions_def)

theorem RemoveAnswer_records_every_attempt_witness:
  "\<not> bind_error (member_request\<lparr>remove_err := Some database_error\<rparr>) \<and>
   \<not> isAdmin (member_request\<lparr>remove_err := Some database_error\<rparr>) \<and>
   captchaPass (member_request\<lparr>remove_err := Some database_error\<rparr>) \<and>
   permissions_err (member_request\<lparr>remove_err := Some database_error\<rparr>) = None \<and>
   permissions_can (member_request\<lparr>remove_err := Some database_error\<rparr>) AnswerDelete \<and>
   Status (RemoveAnswer (member_request\<lparr>remove_err := Some database_error\<rparr>)) = 500 \<and>
   count_list (RemoveAnswer (member_request\<lparr>remove_err := Some database_error\<rparr>))
     (actionService_ActionRecordAdd CaptchaActionDelete) = 1"
  using RemoveAnswer_records_every_attempt
    [of "member_request\<lparr>remove_err := Some database_error\<rparr>"]
  by (simp add: member_request_def database_error_def RemoveAnswer_defs
      CheckOperationPermissions_def status_defs)

lemma AddAnswer_get_records_nothing:
  "count_list (AddAnswer_get c) (actionService_ActionRecordAdd k) = 0"
  by (simp add: AddAnswer_get_def split: sum.split)

lemma AddAnswer_insert_records:
  "count_list (AddAnswer_insert c a l) (actionService_ActionRecordAdd CaptchaActionAnswer) =
     (if insert_err c = None \<and> \<not> (a \<and> l) then 1 else 0)"
  by (simp add: AddAnswer_insert_def AddAnswer_get_records_nothing split: option.split)

lemma AddAnswer_body_records:
  assumes "answerService_Insert \<in> set (AddAnswer_body c)"
  shows "count_list (AddAnswer_body c) (actionService_ActionRecordAdd CaptchaActionAnswer) =
     (if insert_err c = None \<and> \<not> (isAdmin c \<and> permissions_can c LinkUrlLimit) then 1 else 0)"
  using assms
  by (simp add: AddAnswer_body_def AddAnswer_captcha_def AddAnswer_permission_def
      AddAnswer_restrict_def CheckOperationPermissions_def AddAnswer_insert_records Let_def
      split: option.split_asm sum.split_asm if_split_asm)

text \<open>
  AddAnswer records the attempt of a user who is not exempt exactly once when Insert
  succeeds.
\<close>

theorem AddAnswer_records_successful_insert:
  assumes "answerService_Insert \<in> set (AddAnswer c)"
    and "\<not> (isAdmin c \<and> permissions_can c LinkUrlLimit)"
    and "insert_err c = None"
  shows "count_list (AddAnswer c) (actionService_ActionRecordAdd CaptchaActionAnswer) = 1"
  using assms AddAnswer_body_records [of c]
  by (simp add: AddAnswer_def AddAnswer_deferred_def Let_def split: if_split_asm)

theorem AddAnswer_records_successful_insert_witness:
  "answerService_Insert \<in> set (AddAnswer member_request) \<and>
   \<not> isAdmin member_request \<and> insert_err member_request = None \<and>
   count_list (AddAnswer member_request)
     (actionService_ActionRecordAdd CaptchaActionAnswer) = 1"
  using AddAnswer_records_successful_insert [of member_request]
  by (simp add: member_request_def AddAnswer_defs CheckOperationPermissions_def status_defs)

subsection \<open>Admins and the challenge gate\<close>

text \<open>
  AddAnswer and UpdateAnswer guard the challenge gate with
  \<^verbatim>\<open>!isAdmin || !linkUrlLimitUser\<close> (lines 223, 271, 324, 349), where
  \<^verbatim>\<open>linkUrlLimitUser\<close> is the rank service's verdict on LinkUrlLimit; RemoveAnswer
  guards it with \<^verbatim>\<open>!isAdmin\<close> (lines 87, 114). A user who is admin and holds
  LinkUrlLimit passes neither guard.
\<close>

lemma AddAnswer_get_no_challenge:
  "actionService_ActionRecordVerifyCaptcha k \<notin> set (AddAnswer_get c) \<and>
   actionService_ActionRecordAdd k' \<notin> set (AddAnswer_get c)"
  by (simp add: AddAnswer_get_def split: sum.split)

lemma AddAnswer_permission_no_challenge:
  "actionService_ActionRecordVerifyCaptcha k \<notin> set (AddAnswer_permission c True True) \<and>
   actionService_ActionRecordAdd k' \<notin> set (AddAnswer_permission c True True)"
  using AddAnswer_get_no_challenge [of k c k']
  by (simp add: AddAnswer_permission_def AddAnswer_restrict_def AddAnswer_insert_def
      split: sum.split option.split)

lemma AddAnswer_exempt:
  assumes "isAdmin c" and "permissions_can c LinkUrlLimit"
  shows "actionService_ActionRecordVerifyCaptcha k \<notin> set (AddAnswer c) \<and>
         actionService_ActionRecordAdd k' \<notin> set (AddAnswer c)"
  using assms AddAnswer_permission_no_challenge [of k c k']
  by (simp add: AddAnswer_def AddAnswer_deferred_def AddAnswer_body_def
      AddAnswer_captcha_def CheckOperationPermissions_def Let_def split: option.split)

lemma UpdateAnswer_exempt:
  assumes "isAdmin c" and "permissions_can c LinkUrlLimit"
  shows "actionService_ActionRecordVerifyCaptcha k \<notin> set (UpdateAnswer c) \<and>
         actionService_ActionRecordAdd k' \<notin> set (UpdateAnswer c)"
  using assms
  by (simp add: UpdateAnswer_defs CheckOperationPermissions_def Let_def
      split: option.split sum.split)

lemma RemoveAnswer_exempt:
  assumes "isAdmin c"
  shows "actionService_ActionRecordVerifyCaptcha k \<notin> set (RemoveAnswer c) \<and>
         actionService_ActionRecordAdd k' \<notin> set (RemoveAnswer c)"
  using assms
  by (simp add: RemoveAnswer_defs CheckOperationPermissions_def Let_def split: option.split)

text \<open>
  The rank service permits an admin every action, LinkUrlLimit among them.
\<close>

lemma rank_service_admin:
  "isAdmin c \<Longrightarrow>
   isAdmin (rank_service rs userRank c) \<and>
   permissions_can (rank_service rs userRank c) action"
  by (simp add: rank_service_def Evaluate_def)

text \<open>
  Claim C6: for every AddAnswer or UpdateAnswer request of an admin or moderator the
  challenge gate is skipped entirely, with no captcha verification and no attempt
  record, as it is in RemoveAnswer. The rank service is the permission evaluator of the
  specification, whatever the rules and the user's rank are; RemoveAnswer skips the gate
  for an admin whatever the rank service answers.
\<close>

theorem admin_skips_challenge_gate:
  "isAdmin c \<Longrightarrow>
   actionService_ActionRecordVerifyCaptcha k \<notin> set (AddAnswer (rank_service rs userRank c)) \<and>
   actionService_ActionRecordAdd k' \<notin> set (AddAnswer (rank_service rs userRank c)) \<and>
   actionService_ActionRecordVerifyCaptcha k \<notin> set (UpdateAnswer (rank_service rs userRank c)) \<and>
   actionService_ActionRecordAdd k' \<notin> set (UpdateAnswer (rank_service rs userRank c)) \<and>
   actionService_ActionRecordVerifyCaptcha k \<notin> set (RemoveAnswer c) \<and>
   actionService_ActionRecordAdd k' \<notin> set (RemoveAnswer c)"
  using rank_service_admin [of c rs userRank LinkUrlLimit]
    AddAnswer_exempt [of "rank_service rs userRank c" k k']
    UpdateAnswer_exempt [of "rank_service rs userRank c" k k']
    RemoveAnswer_exempt [of c k k']
  by simp

theorem admin_skips_challenge_gate_witness:
  "isAdmin admin_request \<and> \<not> captchaPass admin_request \<and>
   example_rules LinkUrlLimit = None \<and>
   actionService_ActionRecordVerifyCaptcha CaptchaActionAnswer \<notin>
     set (AddAnswer (rank_service example_rules 10 admin_request)) \<and>
   actionService_ActionRecordAdd CaptchaActionAnswer \<notin>
     set (AddAnswer (rank_service example_rules 10 admin_request)) \<and>
   answerService_Insert \<in> set (AddAnswer (rank_service example_rules 10 admin_request)) \<and>
   actionService_ActionRecordVerifyCaptcha CaptchaActionEdit \<notin>
     set (UpdateAnswer (rank_service example_rules 10 admin_request)) \<and>
   answerService_Update \<in> set (UpdateAnswer (rank_service example_rules 10 admin_request)) \<and>
   answerService_RemoveAnswer \<in> set (RemoveAnswer admin_request)"
  using admin_skips_challenge_gate
      [of admin_request CaptchaActionAnswer example_rules 10 CaptchaActionAnswer]
    admin_skips_challenge_gate
      [of admin_request CaptchaActionEdit example_rules 10 CaptchaActionEdit]
  by (simp add: admin_request_def member_request_def rank_service_def example_rules_def
      Evaluate_def AddAnswer_defs RemoveAnswer_defs UpdateAnswer_defs
      CheckOperationPermissions_def status_defs)

subsection \<open>Rank thresholds and the ownership override\<close>

text \<open>
  Claim C7, as stated: a user below the others threshold is permitted to delete or edit
  an answer only when the user owns it and has a rank at or above the owner threshold.
  The handlers decide differently: they permit on
  \<^verbatim>\<open>canList[0] || objectOwner\<close> (lines 107 and 337), so the author of an answer is
  permitted at any rank. With a threshold of 100 for others and of 30 for the owner, the
  evaluator of the specification denies the author of rank 10, and RemoveAnswer and
  UpdateAnswer both carry the mutation out.
\<close>

theorem owner_below_owner_threshold_is_permitted:
  "\<not> isAdmin owner_of_low_rank \<and> objectOwner owner_of_low_rank \<and>
   \<not> Evaluate example_rules 10 AnswerDelete True False \<and>
   \<not> Evaluate example_rules 10 AnswerEdit True False \<and>
   answerService_RemoveAnswer \<in> set (RemoveAnswer owner_of_low_rank) \<and>
   Status (RemoveAnswer owner_of_low_rank) = 200 \<and>
   answerService_Update \<in> set (UpdateAnswer owner_of_low_rank) \<and>
   Status (UpdateAnswer owner_of_low_rank) = 200"
  by (simp add: owner_of_low_rank_def rank_service_def example_rules_def Evaluate_def
      member_request_def RemoveAnswer_defs UpdateAnswer_defs CheckOperationPermissions_def
      status_defs)

lemma RemoveAnswer_permitted_iff:
  assumes "\<not> bind_error c" and "captchaPass c" and "permissions_err c = None"
  shows "answerService_RemoveAnswer \<in> set (RemoveAnswer c) \<longleftrightarrow>
           permissions_can c AnswerDelete \<or> objectOwner c"
    and "\<not> (permissions_can c AnswerDelete \<or> objectOwner c) \<Longrightarrow>
           responses (RemoveAnswer c) =
             [handler_HandleResponse (Some (Forbidden RankFailToMeetTheCondition))]"
  using assms
  by (auto simp add: RemoveAnswer_defs CheckOperationPermissions_def responses_simps)

lemma UpdateAnswer_permitted_iff:
  assumes "\<not> bind_error c" and "captchaPass c" and "permissions_err c = None"
  shows "answerService_Update \<in> set (UpdateAnswer c) \<longleftrightarrow>
           permissions_can c AnswerEdit \<or> objectOwner c"
    and "\<not> (permissions_can c AnswerEdit \<or> objectOwner c) \<Longrightarrow>
           responses (UpdateAnswer c) =
             [handler_HandleResponse (Some (Forbidden RankFailToMeetTheCondition))]"
  using assms
  by (auto simp add: UpdateAnswer_defs CheckOperationPermissions_def responses_simps Let_def)

lemma Evaluate_below_threshold:
  "rs action = Some r \<Longrightarrow> userRank < others_threshold r \<Longrightarrow>
   \<not> Evaluate rs userRank action False False"
  by (simp add: Evaluate_def)

text \<open>
  The evaluator of the specification itself keeps the rule of the claim: below the
  others threshold it permits a user who is no admin exactly when the user is the owner
  and at or above a configured owner threshold.
\<close>

lemma Evaluate_ownership_override:
  "rs action = Some r \<Longrightarrow> userRank < others_threshold r \<Longrightarrow>
   Evaluate rs userRank action isOwner False \<longleftrightarrow>
     isOwner \<and> (\<exists>t. owner_threshold r = Some t \<and> t \<le> userRank)"
  by (simp add: Evaluate_def split: option.split)

text \<open>
  Claim C7, amended: for a user who is no admin and whose rank is below the others
  threshold of the action (AnswerDelete for RemoveAnswer, AnswerEdit for UpdateAnswer),
  in a request that binds and passes the captcha, the handler carries the mutation out
  if and only if the user owns the answer, whatever the user's rank and the owner
  threshold are; a user who does not own it is answered Forbidden.
\<close>

theorem below_threshold_permitted_iff_owner:
  assumes "\<not> bind_error c" and "captchaPass c" and "\<not> isAdmin c"
  shows "(rs AnswerDelete = Some rd \<and> userRank < others_threshold rd \<longrightarrow>
            (answerService_RemoveAnswer \<in> set (RemoveAnswer (rank_service rs userRank c))
               \<longleftrightarrow> objectOwner c) \<and>
            (\<not> objectOwner c \<longrightarrow>
               responses (RemoveAnswer (rank_service rs userRank c)) =
                 [handler_HandleResponse (Some (Forbidden RankFailToMeetTheCondition))])) \<and>
         (rs AnswerEdit = Some re \<and> userRank < others_threshold re \<longrightarrow>
            (answerService_Update \<in> set (UpdateAnswer (rank_service rs userRank c))
               \<longleftrightarrow> objectOwner c) \<and>
            (\<not> objectOwner c \<longrightarrow>
               responses (UpdateAnswer (rank_service rs userRank c)) =
                 [handler_HandleResponse (Some (Forbidden RankFailToMeetTheCondition))]))"
proof -
  let ?c = "rank_service rs userRank c"
  have reach: "\<not> bind_error ?c" "captchaPass ?c" "permissions_err ?c = None"
    using assms(1,2) by (simp_all add: rank_service_def)
  have owner: "objectOwner ?c = objectOwner c"
    by (simp add: rank_service_def)
  have del: "\<not> permissions_can ?c AnswerDelete"
    if "rs AnswerDelete = Some rd" and "userRank < others_threshold rd"
    using Evaluate_below_threshold [of rs AnswerDelete rd userRank] assms(3) that
    by (simp add: rank_service_def)
  have edit: "\<not> permissions_can ?c AnswerEdit"
    if "rs AnswerEdit = Some re" and "userRank < others_threshold re"
    using Evaluate_below_threshold [of rs AnswerEdit re userRank] assms(3) that
    by (simp add: rank_service_def)
  show ?thesis
    using RemoveAnswer_permitted_iff [OF reach] UpdateAnswer_permitted_iff [OF reach]
      owner del edit by simp
qed

theorem below_threshold_permitted_iff_owner_witness:
  "\<not> bind_error (member_request\<lparr>objectOwner := True\<rparr>) \<and>
   captchaPass (member_request\<lparr>objectOwner := True\<rparr>) \<and>
   \<not> isAdmin (member_request\<lparr>objectOwner := True\<rparr>) \<and>
   example_rules AnswerDelete = Some \<lparr>others_threshold = 100, owner_threshold = Some 30\<rparr> \<and>
   example_rules AnswerEdit = Some \<lparr>others_threshold = 200, owner_threshold = Some 30\<rparr> \<and>
   (10 :: int) < 100 \<and> (10 :: int) < 200 \<and>
   answerService_RemoveAnswer \<in>
     set (RemoveAnswer (rank_service example_rules 10 (member_request\<lparr>objectOwner := True\<rparr>))) \<and>
   answerService_Update \<notin>
     set (UpdateAnswer (rank_service example_rules 10 member_request))"
  using below_threshold_permitted_iff_owner
      [of "member_request\<lparr>objectOwner := True\<rparr>" example_rules
        "\<lparr>others_threshold = 100, owner_threshold = Some 30\<rparr>" 10
        "\<lparr>others_threshold = 200, owner_threshold = Some 30\<rparr>"]
    below_threshold_permitted_iff_owner
      [of member_request example_rules
        "\<lparr>others_threshold = 100, owner_threshold = Some 30\<rparr>" 10
        "\<lparr>others_threshold = 200, owner_threshold = Some 30\<rparr>"]
  by (simp add: member_request_def example_rules_def)

subsection \<open>The batch permission check\<close>

lemma EvaluateMany_map:
  "EvaluateMany rs userRank actions isOwner isAdmin' =
     map (\<lambda>action. Evaluate rs userRank action isOwner isAdmin') actions"
  by (induction actions) simp_all

text \<open>
  Claim C8: for every list of action names the batch check answers a list of the same
  length, whose i-th verdict is the single evaluation of the i-th action.
\<close>

theorem EvaluateMany_pointwise:
  "length (EvaluateMany rs userRank actions isOwner isAdmin') = length actions \<and>
   (\<forall>i < length actions.
      EvaluateMany rs userRank actions isOwner isAdmin' ! i =
        Evaluate rs userRank (actions ! i) isOwner isAdmin')"
  by (simp add: EvaluateMany_map)

theorem EvaluateMany_pointwise_witness:
  "length (EvaluateMany example_rules 50 [AnswerEdit, AnswerDelete, LinkUrlLimit] True False) = 3 \<and>
   EvaluateMany example_rules 50 [AnswerEdit, AnswerDelete, LinkUrlLimit] True False ! 1 =
     Evaluate example_rules 50 AnswerDelete True False \<and>
   EvaluateMany example_rules 50 [AnswerEdit, AnswerDelete, LinkUrlLimit] True False =
     [True, True, False]"
  using EvaluateMany_pointwise
    [of example_rules 50 "[AnswerEdit, AnswerDelete, LinkUrlLimit]" True False]
  by (simp add: example_rules_def Evaluate_def)

text \<open>
  The handlers read the verdicts by position: with the evaluator as rank service, the
  list \<^verbatim>\<open>CheckOperationPermissions\<close> hands a handler is the batch evaluation of the
  actions it asked about.
\<close>

lemma CheckOperationPermissions_rank_service:
  "CheckOperationPermissions (rank_service rs userRank c) actions =
     Inr (EvaluateMany rs userRank actions False (isAdmin c))"
  by (simp add: CheckOperationPermissions_def rank_service_def EvaluateMany_map)

subsection \<open>One answer per user\<close>

lemma AddAnswer_restrict_forbidden:
  "site_write c = Inr True \<Longrightarrow> answer_ids c = Inr n \<Longrightarrow> 1 \<le> n \<Longrightarrow>
   AddAnswer_restrict c a l =
     [siteInfo_GetSiteWrite, answerService_GetCountByUserIDQuestionID,
      handler_HandleResponse (Some (Forbidden AnswerRestrictAnswer))]"
  by (simp add: AddAnswer_restrict_def)

text \<open>
  Claim C9, as stated: every AddAnswer request on a site that restricts answers, by a
  user who has an answer on the question already, is answered Forbidden with reason
  AnswerRestrictAnswer. The handler comes to that check (line 250) only after the
  captcha (line 224) and the permission check for AnswerAdd (line 235): such a request
  whose captcha fails is answered 400 CaptchaVerificationFailed, and one whose user may
  not add answers is answered Forbidden with reason RankFailToMeetTheCondition.
\<close>

theorem restricted_request_answered_by_earlier_check:
  "site_write (restricted_request\<lparr>captchaPass := False\<rparr>) = Inr True \<and>
   answer_ids (restricted_request\<lparr>captchaPass := False\<rparr>) = Inr 1 \<and>
   responses (AddAnswer (restricted_request\<lparr>captchaPass := False\<rparr>)) =
     [handler_HandleResponse (Some (BadRequest CaptchaVerificationFailed))] \<and>
   Status (AddAnswer (restricted_request\<lparr>captchaPass := False\<rparr>)) = 400 \<and>
   handler_HandleResponse (Some (Forbidden AnswerRestrictAnswer)) \<notin>
     set (AddAnswer (restricted_request\<lparr>captchaPass := False\<rparr>)) \<and>
   site_write (restricted_request\<lparr>permission_single := Inr False\<rparr>) = Inr True \<and>
   answer_ids (restricted_request\<lparr>permission_single := Inr False\<rparr>) = Inr 1 \<and>
   responses (AddAnswer (restricted_request\<lparr>permission_single := Inr False\<rparr>)) =
     [handler_HandleResponse (Some (Forbidden RankFailToMeetTheCondition))] \<and>
   handler_HandleResponse (Some (Forbidden AnswerRestrictAnswer)) \<notin>
     set (AddAnswer (restricted_request\<lparr>permission_single := Inr False\<rparr>))"
  by (simp add: restricted_request_def member_request_def AddAnswer_defs
      CheckOperationPermissions_def responses_simps status_defs)

lemma AddAnswer_restrict_reads_configuration:
  "siteInfo_GetSiteWrite \<in> set (AddAnswer_restrict c a l)"
  by (simp add: AddAnswer_restrict_def)

text \<open>
  AddAnswer comes to read the write configuration exactly when the body binds, the
  request is admitted, the rank service answers the batch check, the captcha passes or
  is skipped, and the user may add answers.
\<close>

lemma AddAnswer_reads_configuration_iff:
  "siteInfo_GetSiteWrite \<in> set (AddAnswer c) \<longleftrightarrow>
     \<not> bind_error c \<and> \<not> reject c \<and> permissions_err c = None \<and>
     (isAdmin c \<and> permissions_can c LinkUrlLimit \<or> captchaPass c) \<and>
     permission_single c = Inr True"
  using AddAnswer_restrict_reads_configuration [of c]
  by (auto simp add: AddAnswer_def AddAnswer_deferred_def AddAnswer_body_def
      AddAnswer_captcha_def AddAnswer_permission_def CheckOperationPermissions_def Let_def
      split: option.split sum.split)

lemma AddAnswer_restricted:
  assumes "site_write c = Inr True" and "answer_ids c = Inr n" and "1 \<le> n"
  shows "answerService_Insert \<notin> set (AddAnswer c) \<and>
         (siteInfo_GetSiteWrite \<in> set (AddAnswer c) \<longrightarrow>
            responses (AddAnswer c) =
              [handler_HandleResponse (Some (Forbidden AnswerRestrictAnswer))] \<and>
            Status (AddAnswer c) = 403)"
  using AddAnswer_restrict_forbidden [OF assms]
  by (simp add: AddAnswer_def AddAnswer_deferred_def AddAnswer_body_def
      AddAnswer_captcha_def AddAnswer_permission_def CheckOperationPermissions_def
      responses_simps status_defs Let_def split: option.split sum.split)

text \<open>
  Claim C9, amended: when the site's write configuration has RestrictAnswer set and the
  user has at least one answer on the question already, AddAnswer never calls Insert;
  and when moreover the body binds, the request is admitted, the rank service answers
  the batch check, the captcha passes or is skipped and the user may add answers, which
  are the runs that come to read the write configuration (line 245), the handler's only
  response is Forbidden with reason AnswerRestrictAnswer.
\<close>

theorem AddAnswer_restrict_answer_forbidden:
  assumes "site_write c = Inr True" and "answer_ids c = Inr n" and "1 \<le> n"
  shows "answerService_Insert \<notin> set (AddAnswer c) \<and>
         (\<not> bind_error c \<and> \<not> reject c \<and> permissions_err c = None \<and>
          (isAdmin c \<and> permissions_can c LinkUrlLimit \<or> captchaPass c) \<and>
          permission_single c = Inr True \<longrightarrow>
            responses (AddAnswer c) =
              [handler_HandleResponse (Some (Forbidden AnswerRestrictAnswer))] \<and>
            Status (AddAnswer c) = 403) \<and>
         (siteInfo_GetSiteWrite \<in> set (AddAnswer c) \<longrightarrow>
            responses (AddAnswer c) =
              [handler_HandleResponse (Some (Forbidden AnswerRestrictAnswer))] \<and>
            Status (AddAnswer c) = 403)"
  using AddAnswer_restricted [OF assms] AddAnswer_reads_configuration_iff [of c]
  by blast

theorem AddAnswer_restrict_answer_forbidden_witness:
  "site_write restricted_request = Inr True \<and> answer_ids restricted_request = Inr 1 \<and>
   \<not> bind_error restricted_request \<and> \<not> reject restricted_request \<and>
   permissions_err restricted_request = None \<and> captchaPass restricted_request \<and>
   permission_single restricted_request = Inr True \<and>
   siteInfo_GetSiteWrite \<in> set (AddAnswer restricted_request) \<and>
   answerService_Insert \<notin> set (AddAnswer restricted_request) \<and>
   responses (AddAnswer restricted_request) =
     [handler_HandleResponse (Some (Forbidden AnswerRestrictAnswer))] \<and>
   Status (AddAnswer restricted_request) = 403"
  using AddAnswer_restrict_answer_forbidden [of restricted_request 1]
  by (simp add: restricted_request_def member_request_def AddAnswer_defs
      CheckOperationPermissions_def responses_simps status_defs)

subsection \<open>The admin route\<close>

text \<open>
  Claim C10: for every AdminUpdateAnswerStatus request whose body binds, the handler
  calls the status mutation directly: its only step of the gating sequence is the
  mutation, with no permission evaluation, no challenge verification or attempt record,
  and no duplicate suppression.
\<close>

theorem AdminUpdateAnswerStatus_ungated:
  "\<not> bind_error c \<Longrightarrow>
   AdminUpdateAnswerStatus c =
     [handler_BindAndCheck, middleware_GetLoginUserIDFromContext,
      answerService_AdminSetAnswerStatus, handler_HandleResponse (admin_status_err c)] \<and>
   steps (AdminUpdateAnswerStatus c) = [Mutate]"
  by (simp add: AdminUpdateAnswerStatus_def)

theorem AdminUpdateAnswerStatus_ungated_witness:
  "\<not> bind_error member_request \<and>
   steps (AdminUpdateAnswerStatus member_request) = [Mutate] \<and>
   answerService_AdminSetAnswerStatus \<in> set (AdminUpdateAnswerStatus member_request)"
  using AdminUpdateAnswerStatus_ungated [of member_request]
  by (simp add: member_request_def)

end
